theory Spec2Isabelle
  imports Complex_Main "HOL-Library.AList" "HOL-Library.Log_Nat"
begin

section \<open>Position sizing (test-function.py)\<close>

text \<open>
  A Python float is a real number here, and the code is embedded twice. In this section
  and the next every arithmetic operation is exact. In the section on rounded arithmetic
  the same lines are written again with every arithmetic result passed through a rounding
  function, which for the code is rounding to the nearest binary64 number. In both, the
  only failure of arithmetic is division by zero, which raises \<^verbatim>\<open>ZeroDivisionError\<close>;
  infinities and NaN are outside the model.

  \<open>py_exn\<close> stands for the exceptions below \<^verbatim>\<open>Exception\<close> that the modelled code can
  meet; \<open>GatewayError\<close> is any exception raised inside a call of the terminal's API.
\<close>

datatype py_exn = ZeroDivisionError | KeyError | TypeError | IndexError | GatewayError

text \<open>What the scripts print, as far as the claims need it.\<close>

datatype console_line = Error_calculating_lot_size py_exn

text \<open>The fields of the terminal's symbol description that the scripts read.\<close>

record symbol_info =
  trade_tick_value :: real
  trade_tick_size :: real
  volume_min :: real
  volume_max :: real
  volume_step :: real

text \<open>Float division \<^verbatim>\<open>a / b\<close>.\<close>

definition py_div :: "real \<Rightarrow> real \<Rightarrow> py_exn + real" where
  "py_div a b = (if b = 0 then Inl ZeroDivisionError else Inr (a / b))"

text \<open>
  The builtin \<^verbatim>\<open>round(x)\<close> with one argument: the nearest integer, a tie going to the
  even neighbour.
\<close>

definition py_round :: "real \<Rightarrow> int" where
  "py_round x =
     (let f = \<lfloor>x\<rfloor>; d = x - of_int f
      in if d < 1 / 2 then f
         else if 1 / 2 < d then f + 1
         else if even f then f else f + 1)"

text \<open>\<^verbatim>\<open>s.endswith(suf)\<close>.\<close>

definition endswith :: "string \<Rightarrow> string \<Rightarrow> bool" where
  "endswith s suf \<longleftrightarrow> length suf \<le> length s \<and> drop (length s - length suf) s = suf"

text \<open>
  The body of \<^verbatim>\<open>calculate_safe_lot_size\<close> once the symbol description is there, in
  its four stages. \<open>Inl e\<close> is the exception \<open>e\<close> raised inside the \<^verbatim>\<open>try\<close>.
  Lines 52 to 54: the pip value. The quotient of line 52 is computed, and may raise,
  also for a symbol that ends in JPY.
\<close>

definition pip_value :: "symbol_info \<Rightarrow> string \<Rightarrow> py_exn + real" where
  "pip_value info symbol =
     (case py_div (1 / 10000) (trade_tick_size info) of
        Inl e \<Rightarrow> Inl e
      | Inr q4 \<Rightarrow>
         (if endswith symbol ''JPY''
          then (case py_div (1 / 100) (trade_tick_size info) of
                  Inl e \<Rightarrow> Inl e
                | Inr q2 \<Rightarrow> Inr (trade_tick_value info * q2))
          else Inr (trade_tick_value info * q4)))"

text \<open>Line 56: the lot size before rounding.\<close>

definition raw_lot_size :: "symbol_info \<Rightarrow> string \<Rightarrow> real \<Rightarrow> real \<Rightarrow> py_exn + real" where
  "raw_lot_size info symbol risk_amount stop_loss_pips =
     (case pip_value info symbol of
        Inl e \<Rightarrow> Inl e
      | Inr pv \<Rightarrow> py_div risk_amount (stop_loss_pips * pv))"

text \<open>Line 59: rounded to the lot step.\<close>

definition rounded_lot_size :: "symbol_info \<Rightarrow> string \<Rightarrow> real \<Rightarrow> real \<Rightarrow> py_exn + real" where
  "rounded_lot_size info symbol risk_amount stop_loss_pips =
     (case raw_lot_size info symbol risk_amount stop_loss_pips of
        Inl e \<Rightarrow> Inl e
      | Inr lot_size \<Rightarrow>
         (case py_div lot_size (volume_step info) of
            Inl e \<Rightarrow> Inl e
          | Inr steps \<Rightarrow> Inr (of_int (py_round steps) * volume_step info)))"

text \<open>Line 62: the limits.\<close>

definition lot_size_computation :: "symbol_info \<Rightarrow> string \<Rightarrow> real \<Rightarrow> real \<Rightarrow> py_exn + real" where
  "lot_size_computation info symbol risk_amount stop_loss_pips =
     (case rounded_lot_size info symbol risk_amount stop_loss_pips of
        Inl e \<Rightarrow> Inl e
      | Inr lot_size \<Rightarrow> Inr (max (volume_min info) (min lot_size (volume_max info))))"

text \<open>
  \<^verbatim>\<open>calculate_safe_lot_size\<close>. The first argument is \<^verbatim>\<open>mt5.symbol_info\<close>: it raises,
  returns \<^verbatim>\<open>None\<close> or returns the description. The result is what the function hands to
  its caller (\<open>Inr\<close> a returned value, \<open>Inl\<close> a propagated exception) and what it prints.
  In the handler \<^verbatim>\<open>min_lot\<close> is a local exactly when the description was read.
\<close>

definition calculate_safe_lot_size ::
  "(string \<Rightarrow> py_exn + symbol_info option) \<Rightarrow> string \<Rightarrow> real \<Rightarrow> real
     \<Rightarrow> (py_exn + real) \<times> console_line list" where
  "calculate_safe_lot_size mt5_symbol_info symbol risk_amount stop_loss_pips =
     (case mt5_symbol_info symbol of
        Inl e \<Rightarrow> (Inr (1 / 100), [Error_calculating_lot_size e])
      | Inr None \<Rightarrow> (Inr (1 / 100), [])
      | Inr (Some info) \<Rightarrow>
         (case lot_size_computation info symbol risk_amount stop_loss_pips of
            Inl e \<Rightarrow> (Inr (volume_min info), [Error_calculating_lot_size e])
          | Inr lot_size \<Rightarrow> (Inr lot_size, [])))"

section \<open>Order levels (test-function.py, place_test_order)\<close>

record tick =
  bid :: real
  ask :: real

datatype mt5_order_type = ORDER_TYPE_BUY | ORDER_TYPE_SELL

text \<open>
  \<^verbatim>\<open>str.upper\<close> on the letters that matter here: a string is a list of bytes and
  the ASCII letters a to z are raised.
\<close>

definition upper_char :: "char \<Rightarrow> char" where
  "upper_char c =
     (case map_of (zip ''abcdefghijklmnopqrstuvwxyz'' ''ABCDEFGHIJKLMNOPQRSTUVWXYZ'') c of
        None \<Rightarrow> c
      | Some u \<Rightarrow> u)"

definition upper :: "string \<Rightarrow> string" where
  "upper s = map upper_char s"

record levels =
  price :: real
  stop_loss :: real
  take_profit :: real
  order_type_of :: mt5_order_type

text \<open>
  Lines 103 to 122 of \<^verbatim>\<open>place_test_order\<close>: entry price, stop loss and take profit
  from the order type, the tick and the local \<^verbatim>\<open>stop_loss_pips\<close>. The first
  \<^verbatim>\<open>if\<close> has two branches, BUY and everything else; the JPY block then overwrites the
  two stops with \<^verbatim>\<open>stop_loss_pips\<close> multiplied by 100.
\<close>

definition order_levels :: "string \<Rightarrow> string \<Rightarrow> tick \<Rightarrow> real \<Rightarrow> levels" where
  "order_levels symbol order_type t stop_loss_pips =
     (let first =
            (if upper order_type = ''BUY''
             then \<lparr>price = ask t,
                   stop_loss = ask t - stop_loss_pips * (1 / 10000),
                   take_profit = ask t + stop_loss_pips * 2 * (1 / 10000),
                   order_type_of = ORDER_TYPE_BUY\<rparr>
             else \<lparr>price = bid t,
                   stop_loss = bid t + stop_loss_pips * (1 / 10000),
                   take_profit = bid t - stop_loss_pips * 2 * (1 / 10000),
                   order_type_of = ORDER_TYPE_SELL\<rparr>)
      in if endswith symbol ''JPY''
         then (let pips100 = stop_loss_pips * 100
               in if upper order_type = ''BUY''
                  then first\<lparr>stop_loss := price first - pips100 * (1 / 100),
                             take_profit := price first + pips100 * 2 * (1 / 100)\<rparr>
                  else first\<lparr>stop_loss := price first + pips100 * (1 / 100),
                             take_profit := price first - pips100 * 2 * (1 / 100)\<rparr>)
         else first)"

record order_request =
  req_symbol :: string
  req_volume :: real
  req_type :: mt5_order_type
  req_price :: real
  req_sl :: real
  req_tp :: real

text \<open>
  Lines 98 to 138 of \<^verbatim>\<open>place_test_order\<close>, once the tick is there: the request handed
  to \<^verbatim>\<open>order_send\<close> and the lines printed on the way. The stop distance is the constant
  50; an exception out of the sizing would end in the function's handler with no request.
\<close>

definition place_test_order_request ::
  "(string \<Rightarrow> py_exn + symbol_info option) \<Rightarrow> string \<Rightarrow> string \<Rightarrow> real \<Rightarrow> tick
     \<Rightarrow> order_request option \<times> console_line list" where
  "place_test_order_request mt5_symbol_info symbol order_type risk_amount t =
     (let stop_loss_pips = 50;
          (sized, printed) = calculate_safe_lot_size mt5_symbol_info symbol risk_amount stop_loss_pips
      in case sized of
           Inl e \<Rightarrow> (None, printed)
         | Inr lot_size \<Rightarrow>
            (let l = order_levels symbol order_type t stop_loss_pips
             in (Some \<lparr>req_symbol = symbol, req_volume = lot_size, req_type = order_type_of l,
                       req_price = price l, req_sl = stop_loss l, req_tp = take_profit l\<rparr>,
                 printed)))"

section \<open>The same code with rounded arithmetic\<close>

text \<open>
  The binade of a real number other than zero: the integer \<open>b\<close> with
  \<open>2 powi b \<le> \<bar>x\<bar> < 2 powi (b + 1)\<close>, from the bit length of an integer.
\<close>

definition binade :: "real \<Rightarrow> int" where
  "binade x =
     (let a = \<bar>x\<bar>
      in if 1 \<le> a then bitlen \<lfloor>a\<rfloor> - 1 else - bitlen (\<lceil>1 / a\<rceil> - 1))"

text \<open>
  Rounding to the nearest binary64 number, a tie going to the even significand: 53
  significant bits, and an exponent without bounds, so that overflow to infinity and
  the subnormal numbers are outside the model.
\<close>

definition binary64 :: "real \<Rightarrow> real" where
  "binary64 x =
     (if x = 0 then 0
      else (let e = binade x - 52
            in of_int (py_round (x * 2 powi (- e))) * 2 powi e))"

text \<open>Float division \<^verbatim>\<open>a / b\<close>, the quotient rounded by \<open>rnd\<close>.\<close>

definition py_div_fl :: "(real \<Rightarrow> real) \<Rightarrow> real \<Rightarrow> real \<Rightarrow> py_exn + real" where
  "py_div_fl rnd a b = (if b = 0 then Inl ZeroDivisionError else Inr (rnd (a / b)))"

text \<open>
  \<^verbatim>\<open>calculate_safe_lot_size\<close> again, stage by stage as above, with the float literals
  and every product and quotient rounded by \<open>rnd\<close>. On line 59 the integer that
  \<^verbatim>\<open>round\<close> returns is converted to a float before it is multiplied. Line 62
  compares and selects, it does not compute. The exceptions that \<^verbatim>\<open>round\<close> and
  the conversion raise on an infinity, a NaN or an integer beyond the floats are outside
  the model; in the code they end in the same handler as a division by zero.
\<close>

definition pip_value_fl :: "(real \<Rightarrow> real) \<Rightarrow> symbol_info \<Rightarrow> string \<Rightarrow> py_exn + real" where
  "pip_value_fl rnd info symbol =
     (case py_div_fl rnd (rnd (1 / 10000)) (trade_tick_size info) of
        Inl e \<Rightarrow> Inl e
      | Inr q4 \<Rightarrow>
         (if endswith symbol ''JPY''
          then (case py_div_fl rnd (rnd (1 / 100)) (trade_tick_size info) of
                  Inl e \<Rightarrow> Inl e
                | Inr q2 \<Rightarrow> Inr (rnd (trade_tick_value info * q2)))
          else Inr (rnd (trade_tick_value info * q4))))"

definition raw_lot_size_fl ::
  "(real \<Rightarrow> real) \<Rightarrow> symbol_info \<Rightarrow> string \<Rightarrow> real \<Rightarrow> real \<Rightarrow> py_exn + real" where
  "raw_lot_size_fl rnd info symbol risk_amount stop_loss_pips =
     (case pip_value_fl rnd info symbol of
        Inl e \<Rightarrow> Inl e
      | Inr pv \<Rightarrow> py_div_fl rnd risk_amount (rnd (stop_loss_pips * pv)))"

definition rounded_lot_size_fl ::
  "(real \<Rightarrow> real) \<Rightarrow> symbol_info \<Rightarrow> string \<Rightarrow> real \<Rightarrow> real \<Rightarrow> py_exn + real" where
  "rounded_lot_size_fl rnd info symbol risk_amount stop_loss_pips =
     (case raw_lot_size_fl rnd info symbol risk_amount stop_loss_pips of
        Inl e \<Rightarrow> Inl e
      | Inr lot_size \<Rightarrow>
         (case py_div_fl rnd lot_size (volume_step info) of
            Inl e \<Rightarrow> Inl e
          | Inr steps \<Rightarrow> Inr (rnd (rnd (of_int (py_round steps)) * volume_step info))))"

definition lot_size_computation_fl ::
  "(real \<Rightarrow> real) \<Rightarrow> symbol_info \<Rightarrow> string \<Rightarrow> real \<Rightarrow> real \<Rightarrow> py_exn + real" where
  "lot_size_computation_fl rnd info symbol risk_amount stop_loss_pips =
     (case rounded_lot_size_fl rnd info symbol risk_amount stop_loss_pips of
        Inl e \<Rightarrow> Inl e
      | Inr lot_size \<Rightarrow> Inr (max (volume_min info) (min lot_size (volume_max info))))"

definition calculate_safe_lot_size_fl ::
  "(real \<Rightarrow> real) \<Rightarrow> (string \<Rightarrow> py_exn + symbol_info option) \<Rightarrow> string \<Rightarrow> real \<Rightarrow> real
     \<Rightarrow> (py_exn + real) \<times> console_line list" where
  "calculate_safe_lot_size_fl rnd mt5_symbol_info symbol risk_amount stop_loss_pips =
     (case mt5_symbol_info symbol of
        Inl e \<Rightarrow> (Inr (1 / 100), [Error_calculating_lot_size e])
      | Inr None \<Rightarrow> (Inr (1 / 100), [])
      | Inr (Some info) \<Rightarrow>
         (case lot_size_computation_fl rnd info symbol risk_amount stop_loss_pips of
            Inl e \<Rightarrow> (Inr (volume_min info), [Error_calculating_lot_size e])
          | Inr lot_size \<Rightarrow> (Inr lot_size, [])))"

text \<open>
  Lines 103 to 122 of \<^verbatim>\<open>place_test_order\<close> again, with the float literals and every
  product, sum and difference rounded by \<open>rnd\<close>.
\<close>

definition order_levels_fl ::
  "(real \<Rightarrow> real) \<Rightarrow> string \<Rightarrow> string \<Rightarrow> tick \<Rightarrow> real \<Rightarrow> levels" where
  "order_levels_fl rnd symbol order_type t stop_loss_pips =
     (let first =
            (if upper order_type = ''BUY''
             then \<lparr>price = ask t,
                   stop_loss = rnd (ask t - rnd (stop_loss_pips * rnd (1 / 10000))),
                   take_profit = rnd (ask t + rnd (rnd (stop_loss_pips * 2) * rnd (1 / 10000))),
                   order_type_of = ORDER_TYPE_BUY\<rparr>
             else \<lparr>price = bid t,
                   stop_loss = rnd (bid t + rnd (stop_loss_pips * rnd (1 / 10000))),
                   take_profit = rnd (bid t - rnd (rnd (stop_loss_pips * 2) * rnd (1 / 10000))),
                   order_type_of = ORDER_TYPE_SELL\<rparr>)
      in if endswith symbol ''JPY''
         then (let pips100 = rnd (stop_loss_pips * 100)
               in if upper order_type = ''BUY''
                  then first\<lparr>stop_loss := rnd (price first - rnd (pips100 * rnd (1 / 100))),
                             take_profit := rnd (price first + rnd (rnd (pips100 * 2) * rnd (1 / 100)))\<rparr>
                  else first\<lparr>stop_loss := rnd (price first + rnd (pips100 * rnd (1 / 100))),
                             take_profit := rnd (price first - rnd (rnd (pips100 * 2) * rnd (1 / 100)))\<rparr>)
         else first)"

section \<open>Configuration store (config_manager.py)\<close>

text \<open>
  A loaded JSON document. A dictionary is an association list read through \<open>map_of\<close>
  and written through \<open>AList.update\<close>, so a key has one value.
\<close>

datatype json =
    JNull
  | JBool bool
  | JInt int
  | JFloat real
  | JStr string
  | JList "json list"
  | JDict "(string \<times> json) list"

text \<open>\<^verbatim>\<open>s.split(sep)\<close> for a separator of one character: never the empty list.\<close>

fun py_split :: "string \<Rightarrow> char \<Rightarrow> string list" where
  "py_split [] sep = [[]]"
| "py_split (c # cs) sep =
     (if c = sep then [] # py_split cs sep
      else (case py_split cs sep of
              [] \<Rightarrow> [[c]]
            | w # ws \<Rightarrow> (c # w) # ws))"

text \<open>\<^verbatim>\<open>value[key]\<close> with a string key: only a dictionary can be read that way.\<close>

fun getitem :: "json \<Rightarrow> string \<Rightarrow> py_exn + json" where
  "getitem (JDict d) key = (case map_of d key of None \<Rightarrow> Inl KeyError | Some v \<Rightarrow> Inr v)"
| "getitem _ key = Inl TypeError"

text \<open>\<^verbatim>\<open>ref[key] = value\<close> with a string key.\<close>

fun setitem :: "json \<Rightarrow> string \<Rightarrow> json \<Rightarrow> py_exn + json" where
  "setitem (JDict d) key v = Inr (JDict (AList.update key v d))"
| "setitem _ key v = Inl TypeError"

text \<open>\<^verbatim>\<open>sub in s\<close> on strings.\<close>

fun substring :: "string \<Rightarrow> string \<Rightarrow> bool" where
  "substring sub [] \<longleftrightarrow> sub = []"
| "substring sub (c # cs) \<longleftrightarrow> take (length sub) (c # cs) = sub \<or> substring sub cs"

text \<open>
  \<^verbatim>\<open>key in ref\<close> with a string key: a key of a dictionary, an element of a list, a
  substring of a string; the other values are not containers.
\<close>

fun contains :: "json \<Rightarrow> string \<Rightarrow> py_exn + bool" where
  "contains (JDict d) key = Inr (map_of d key \<noteq> None)"
| "contains (JList xs) key = Inr (JStr key \<in> set xs)"
| "contains (JStr s) key = Inr (substring key s)"
| "contains _ key = Inl TypeError"

text \<open>The loop of \<^verbatim>\<open>get\<close> (lines 103 and 104).\<close>

fun get_loop :: "json \<Rightarrow> string list \<Rightarrow> py_exn + json" where
  "get_loop v [] = Inr v"
| "get_loop v (key # keys) =
     (case getitem v key of Inl e \<Rightarrow> Inl e | Inr v' \<Rightarrow> get_loop v' keys)"

text \<open>
  \<^verbatim>\<open>ConfigManager.get\<close>: the handler catches \<^verbatim>\<open>KeyError\<close> and \<^verbatim>\<open>TypeError\<close> and
  nothing else.
\<close>

definition get :: "json \<Rightarrow> string \<Rightarrow> json \<Rightarrow> py_exn + json" where
  "get config key_path dflt =
     (case get_loop config (py_split key_path (CHR ''.'')) of
        Inr v \<Rightarrow> Inr v
      | Inl e \<Rightarrow> if e = KeyError \<or> e = TypeError then Inr dflt else Inl e)"

text \<open>
  The body of \<^verbatim>\<open>ConfigManager.set\<close> (lines 123 to 132) on the object \<open>ref\<close>: the
  object after the statements that ran, and the exception that stopped them if one did.
  A child is reached by reference, so what is written below it shows in the parent:
  \<open>put_back\<close>.
\<close>

fun put_back :: "json \<Rightarrow> string \<Rightarrow> json \<Rightarrow> json" where
  "put_back (JDict d) key child = JDict (AList.update key child d)"
| "put_back ref key child = ref"

fun set_loop :: "json \<Rightarrow> string list \<Rightarrow> json \<Rightarrow> json \<times> py_exn option" where
  "set_loop ref [] v = (ref, Some IndexError)"
| "set_loop ref [key] v =
     (case setitem ref key v of Inl e \<Rightarrow> (ref, Some e) | Inr ref' \<Rightarrow> (ref', None))"
| "set_loop ref (key # keys) v =
     (case contains ref key of
        Inl e \<Rightarrow> (ref, Some e)
      | Inr present \<Rightarrow>
         (case (if present then Inr ref else setitem ref key (JDict [])) of
            Inl e \<Rightarrow> (ref, Some e)
          | Inr ref1 \<Rightarrow>
             (case getitem ref1 key of
                Inl e \<Rightarrow> (ref1, Some e)
              | Inr child \<Rightarrow>
                 (let (child', raised) = set_loop child keys v
                  in (put_back ref1 key child', raised)))))"

text \<open>
  \<^verbatim>\<open>ConfigManager.set\<close>: the configuration afterwards and the boolean returned; the
  handler catches every exception.
\<close>

definition set_value :: "json \<Rightarrow> string \<Rightarrow> json \<Rightarrow> json \<times> bool" where
  "set_value config key_path v =
     (let (config', raised) = set_loop config (py_split key_path (CHR ''.'')) v
      in (config', raised = None))"

text \<open>
  What a dot path addresses in a document, read off the document alone: each segment is
  a key of the dictionary reached so far. A path is absent when this gives \<open>None\<close>.
\<close>

fun path_value :: "json \<Rightarrow> string list \<Rightarrow> json option" where
  "path_value v [] = Some v"
| "path_value (JDict d) (key # keys) =
     (case map_of d key of None \<Rightarrow> None | Some v \<Rightarrow> path_value v keys)"
| "path_value _ (key # keys) = None"

section \<open>Concrete inputs\<close>

text \<open>The symbol description of the spec's EURUSD scenario.\<close>

definition eurusd_info :: symbol_info where
  "eurusd_info =
     \<lparr>trade_tick_value = 1, trade_tick_size = 1 / 100000,
      volume_min = 1 / 100, volume_max = 100, volume_step = 1 / 100\<rparr>"

definition eurusd_only :: "string \<Rightarrow> py_exn + symbol_info option" where
  "eurusd_only s = (if s = ''EURUSD'' then Inr (Some eurusd_info) else Inr None)"


text \<open>A description with no tick size, and a minimum volume other than 0.01.\<close>

definition zero_tick_info :: symbol_info where
  "zero_tick_info =
     \<lparr>trade_tick_value = 1, trade_tick_size = 0,
      volume_min = 1 / 10, volume_max = 100, volume_step = 1 / 10\<rparr>"

definition raising_gateway :: "string \<Rightarrow> py_exn + symbol_info option" where
  "raising_gateway s = Inl GatewayError"

text \<open>A EURUSD tick.\<close>

definition quote :: tick where
  "quote = \<lparr>bid = 11049 / 10000, ask = 11050 / 10000\<rparr>"

text \<open>A small loaded document.\<close>

definition sample_config :: json where
  "sample_config =
     JDict [(''trading'', JDict [(''risk_amount'', JFloat 50), (''magic_number'', JInt 234567)]),
            (''symbols'', JList [JDict [(''name'', JStr ''EURUSD'')]])]"

text \<open>
  The EURUSD description and a EURUSD tick as the terminal hands them over: each number
  is the float nearest to the decimal.
\<close>

definition float_info :: symbol_info where
  "float_info =
     \<lparr>trade_tick_value = 1, trade_tick_size = binary64 (1 / 100000),
      volume_min = binary64 (1 / 100), volume_max = 100, volume_step = binary64 (1 / 100)\<rparr>"

definition float_gateway :: "string \<Rightarrow> py_exn + symbol_info option" where
  "float_gateway s = Inr (Some float_info)"



section \<open>The notions of the specification\<close>

text \<open>
  \<open>v\<close> is \<open>lo\<close> plus an integer multiple of \<open>step\<close>: the number of steps
  from \<open>lo\<close> to \<open>v\<close> is whole (\<open>step_aligned_iff\<close> below).
\<close>

definition step_aligned :: "real \<Rightarrow> real \<Rightarrow> real \<Rightarrow> bool" where
  "step_aligned lo step v \<longleftrightarrow> of_int \<lfloor>(v - lo) / step\<rfloor> * step = v - lo"

text \<open>
  The price distance of the order plan: the stop distance times the pip unit, 0.0001, or
  0.01 for a symbol that ends in JPY, whose stop distance is first multiplied by 100.
\<close>

definition price_distance :: "string \<Rightarrow> real \<Rightarrow> real" where
  "price_distance symbol stop_loss_pips =
     (if endswith symbol ''JPY'' then (100 * stop_loss_pips) * (1 / 100)
      else stop_loss_pips * (1 / 10000))"

section \<open>Position sizing: when the computation raises\<close>

lemma pip_value_eq:
  "pip_value info symbol =
     (if trade_tick_size info = 0 then Inl ZeroDivisionError
      else Inr (trade_tick_value info *
                  ((if endswith symbol ''JPY'' then 1 / 100 else 1 / 10000) / trade_tick_size info)))"
  by (simp add: pip_value_def py_div_def)

lemma raw_lot_size_Inl_iff:
  "raw_lot_size info symbol r s = Inl e \<longleftrightarrow>
     e = ZeroDivisionError \<and>
     (trade_tick_size info = 0 \<or> trade_tick_value info = 0 \<or> s = 0)"
  by (auto simp add: raw_lot_size_def pip_value_eq py_div_def split: if_splits)

lemma rounded_lot_size_Inl_iff:
  "rounded_lot_size info symbol r s = Inl e \<longleftrightarrow>
     e = ZeroDivisionError \<and>
     (trade_tick_size info = 0 \<or> trade_tick_value info = 0 \<or> s = 0 \<or> volume_step info = 0)"
proof (cases "raw_lot_size info symbol r s")
  case (Inl e')
  then show ?thesis
    using raw_lot_size_Inl_iff [of info symbol r s e']
    by (auto simp add: rounded_lot_size_def)
next
  case (Inr x)
  then have "\<not> (trade_tick_size info = 0 \<or> trade_tick_value info = 0 \<or> s = 0)"
    using raw_lot_size_Inl_iff [of info symbol r s ZeroDivisionError] by auto
  with Inr show ?thesis
    by (auto simp add: rounded_lot_size_def py_div_def)
qed

lemma lot_size_computation_Inl_iff:
  "lot_size_computation info symbol r s = Inl e \<longleftrightarrow>
     e = ZeroDivisionError \<and>
     (trade_tick_size info = 0 \<or> trade_tick_value info = 0 \<or> s = 0 \<or> volume_step info = 0)"
  using rounded_lot_size_Inl_iff [of info symbol r s e]
  by (cases "rounded_lot_size info symbol r s") (auto simp add: lot_size_computation_def)

lemma calculate_safe_lot_size_returns:
  "\<exists>v. fst (calculate_safe_lot_size g symbol r s) = Inr v"
proof (cases "g symbol")
  case (Inl e)
  then have "fst (calculate_safe_lot_size g symbol r s) = Inr (1 / 100)"
    by (simp add: calculate_safe_lot_size_def)
  then show ?thesis ..
next
  case (Inr found)
  show ?thesis
  proof (cases found)
    case None
    with Inr have "fst (calculate_safe_lot_size g symbol r s) = Inr (1 / 100)"
      by (simp add: calculate_safe_lot_size_def)
    then show ?thesis ..
  next
    case (Some info)
    show ?thesis
    proof (cases "lot_size_computation info symbol r s")
      case (Inl e)
      with Inr Some have "fst (calculate_safe_lot_size g symbol r s) = Inr (volume_min info)"
        by (simp add: calculate_safe_lot_size_def)
      then show ?thesis ..
    next
      case (Inr v)
      with \<open>g symbol = Inr found\<close> Some
      have "fst (calculate_safe_lot_size g symbol r s) = Inr v"
        by (simp add: calculate_safe_lot_size_def)
      then show ?thesis ..
    qed
  qed
qed

lemma step_aligned_iff:
  "step_aligned lo step v \<longleftrightarrow> (\<exists>k::int. v = lo + of_int k * step)"
proof
  assume "step_aligned lo step v"
  then have "v = lo + of_int \<lfloor>(v - lo) / step\<rfloor> * step"
    by (simp add: step_aligned_def)
  then show "\<exists>k::int. v = lo + of_int k * step" ..
next
  assume "\<exists>k::int. v = lo + of_int k * step"
  then obtain k :: int where k: "v = lo + of_int k * step" ..
  show "step_aligned lo step v"
  proof (cases "step = 0")
    case True
    with k show ?thesis by (simp add: step_aligned_def)
  next
    case False
    with k have "(v - lo) / step = of_int k" by simp
    then have "\<lfloor>(v - lo) / step\<rfloor> = k" by simp
    with k show ?thesis by (simp add: step_aligned_def)
  qed
qed

lemma py_round_nonpos: "x \<le> 0 \<Longrightarrow> py_round x \<le> 0"
proof -
  assume x: "x \<le> 0"
  then have "\<lfloor>x\<rfloor> \<le> \<lfloor>0::real\<rfloor>" by (rule floor_mono)
  then have f: "\<lfloor>x\<rfloor> \<le> 0" by simp
  show ?thesis
  proof (cases "\<lfloor>x\<rfloor> = 0")
    case True
    then have "0 \<le> x" by (simp add: floor_eq_iff)
    with x have "x = 0" by simp
    then show ?thesis by (simp add: py_round_def)
  next
    case False
    with f have "\<lfloor>x\<rfloor> + 1 \<le> 0" by arith
    with f show ?thesis unfolding py_round_def Let_def by presburger
  qed
qed

section \<open>Rounding\<close>

lemma py_round_between: "\<lfloor>x\<rfloor> \<le> py_round x \<and> py_round x \<le> \<lfloor>x\<rfloor> + 1"
  by (simp add: py_round_def Let_def)

lemma py_round_of_int: "py_round (of_int n) = n"
  by (simp add: py_round_def)

lemma py_round_mono:
  assumes "x \<le> y"
  shows "py_round x \<le> py_round y"
proof (cases "\<lfloor>x\<rfloor> = \<lfloor>y\<rfloor>")
  case True
  from assms have "x - of_int \<lfloor>y\<rfloor> \<le> y - of_int \<lfloor>y\<rfloor>" by simp
  with True show ?thesis
    by (simp add: py_round_def Let_def)
next
  case False
  from assms have "\<lfloor>x\<rfloor> \<le> \<lfloor>y\<rfloor>" by (rule floor_mono)
  with False have "\<lfloor>x\<rfloor> + 1 \<le> \<lfloor>y\<rfloor>" by simp
  with py_round_between [of x] py_round_between [of y] show ?thesis by linarith
qed

lemma py_round_minus: "py_round (- x) = - py_round x"
proof (cases "x = of_int \<lfloor>x\<rfloor>")
  case True
  then obtain n where "x = of_int n" ..
  then have "py_round (- x) = py_round (of_int (- n))" by simp
  also have "\<dots> = - n" by (rule py_round_of_int)
  finally show ?thesis using \<open>x = of_int n\<close> by (simp add: py_round_of_int)
next
  case False
  then have c: "\<lceil>x\<rceil> = \<lfloor>x\<rfloor> + 1" by (simp add: ceiling_altdef)
  have f: "\<lfloor>- x\<rfloor> = - \<lfloor>x\<rfloor> - 1" using c by (simp add: floor_minus)
  have d: "0 < x - of_int \<lfloor>x\<rfloor>" using False
    by (metis diff_gt_0_iff_gt le_less of_int_floor_le)
  show ?thesis
    unfolding py_round_def Let_def f using d
    by (auto simp add: algebra_simps)
qed

lemma binade_bounds:
  assumes "x \<noteq> 0"
  shows "2 powi binade x \<le> \<bar>x\<bar> \<and> \<bar>x\<bar> < 2 powi (binade x + 1)"
proof (cases "1 \<le> \<bar>x\<bar>")
  case True
  define n where "n = \<lfloor>\<bar>x\<bar>\<rfloor>"
  have n: "0 < n" using True by (simp add: n_def)
  have b: "binade x = bitlen n - 1" using True by (simp add: binade_def n_def)
  from n have k: "1 \<le> bitlen n" by (simp add: bitlen_alt_def)
  from bitlen_bounds [OF n] have lo: "2 ^ nat (bitlen n - 1) \<le> n" and hi: "n < 2 ^ nat (bitlen n)"
    by simp_all
  have "(2::real) powi (bitlen n - 1) = 2 ^ nat (bitlen n - 1)"
    using k by (simp add: power_int_def)
  also have "\<dots> = of_int (2 ^ nat (bitlen n - 1))" by simp
  also have "\<dots> \<le> of_int n" using lo by (simp only: of_int_le_iff)
  also have "\<dots> \<le> \<bar>x\<bar>" by (simp add: n_def)
  finally have 1: "2 powi binade x \<le> \<bar>x\<bar>" by (simp add: b)
  from hi have "n + 1 \<le> 2 ^ nat (bitlen n)" by simp
  then have "(of_int (n + 1) :: real) \<le> of_int (2 ^ nat (bitlen n))" by (simp only: of_int_le_iff)
  moreover have "\<bar>x\<bar> < of_int (n + 1)" unfolding n_def by linarith
  ultimately have "\<bar>x\<bar> < 2 ^ nat (bitlen n)" by simp
  also have "\<dots> = 2 powi (bitlen n)" using k by (simp add: power_int_def)
  finally have 2: "\<bar>x\<bar> < 2 powi (binade x + 1)" by (simp add: b)
  from 1 2 show ?thesis ..
next
  case False
  define a where "a = \<bar>x\<bar>"
  have a: "0 < a" "a < 1" using assms False by (simp_all add: a_def)
  define m where "m = \<lceil>1 / a\<rceil> - 1"
  have "1 < 1 / a" using a by simp
  then have m: "0 < m" unfolding m_def by (simp add: less_ceiling_iff)
  have my: "of_int m < 1 / a" "1 / a \<le> of_int m + 1"
    unfolding m_def by linarith+
  have b: "binade x = - bitlen m" using False by (simp add: binade_def m_def a_def)
  from m have k: "1 \<le> bitlen m" by (simp add: bitlen_alt_def)
  from bitlen_bounds [OF m] have lo: "2 ^ nat (bitlen m - 1) \<le> m" and hi: "m < 2 ^ nat (bitlen m)"
    by simp_all
  from hi have "m + 1 \<le> 2 ^ nat (bitlen m)" by simp
  then have "(of_int (m + 1) :: real) \<le> of_int (2 ^ nat (bitlen m))" by (simp only: of_int_le_iff)
  with my(2) have "1 / a \<le> 2 ^ nat (bitlen m)" by simp
  then have "1 / 2 ^ nat (bitlen m) \<le> a"
    using a(1) by (simp add: field_simps)
  moreover have "(2::real) powi (- bitlen m) = 1 / 2 ^ nat (bitlen m)"
    using k by (simp add: power_int_def field_simps)
  ultimately have 1: "2 powi binade x \<le> \<bar>x\<bar>" by (simp add: b a_def)
  have "(of_int (2 ^ nat (bitlen m - 1)) :: real) \<le> of_int m" using lo by (simp only: of_int_le_iff)
  then have "(2::real) ^ nat (bitlen m - 1) \<le> of_int m" by simp
  with my(1) have "2 ^ nat (bitlen m - 1) < 1 / a" by linarith
  then have "a < 1 / 2 ^ nat (bitlen m - 1)"
    using a(1) by (simp add: field_simps)
  moreover have "(2::real) powi (- bitlen m + 1) = 1 / 2 ^ nat (bitlen m - 1)"
  proof -
    have "- bitlen m + 1 = - (bitlen m - 1)" by simp
    then have "(2::real) powi (- bitlen m + 1) = inverse (2 powi (bitlen m - 1))"
      by (simp only: power_int_minus)
    also have "\<dots> = 1 / 2 ^ nat (bitlen m - 1)"
      using k by (simp add: power_int_def field_simps)
    finally show ?thesis .
  qed
  ultimately have 2: "\<bar>x\<bar> < 2 powi (binade x + 1)" by (simp add: b a_def)
  from 1 2 show ?thesis ..
qed

lemma binade_mono:
  assumes "x \<noteq> 0" "\<bar>x\<bar> \<le> \<bar>y\<bar>"
  shows "binade x \<le> binade y"
proof -
  from assms have y: "y \<noteq> 0" by auto
  from binade_bounds [OF assms(1)] binade_bounds [OF y] assms(2)
  have "(2::real) powi binade x < 2 powi (binade y + 1)" by linarith
  then have "binade x < binade y + 1"
    by (metis linorder_not_less one_less_numeral_iff power_int_increasing semiring_norm(76) less_eq_real_def)
  then show ?thesis by simp
qed

lemma binade_minus: "binade (- x) = binade x"
  by (simp add: binade_def)

lemma binary64_minus: "binary64 (- x) = - binary64 x"
  by (simp add: binary64_def binade_minus py_round_minus)

lemma binary64_pos_bounds:
  assumes "0 < x"
  shows "2 powi binade x \<le> binary64 x \<and> binary64 x \<le> 2 powi (binade x + 1)"
proof -
  define e where "e = binade x - 52"
  define z where "z = x * 2 powi (- e)"
  have x: "x \<noteq> 0" "\<bar>x\<bar> = x" using assms by simp_all
  have p: "(0::real) < 2 powi (- e)" by simp
  from binade_bounds [OF x(1)] x(2)
  have lo: "2 powi binade x \<le> x" and hi: "x < 2 powi (binade x + 1)" by simp_all
  have "2 powi binade x * 2 powi (- e) \<le> z"
    unfolding z_def using lo p by (simp only: mult_right_mono less_imp_le)
  moreover have "(2::real) powi binade x * 2 powi (- e) = 2 powi 52"
    unfolding e_def by (simp flip: power_int_add)
  ultimately have zlo: "of_int (2 ^ 52) \<le> z" by simp
  have "z < 2 powi (binade x + 1) * 2 powi (- e)"
    unfolding z_def using hi p by (simp only: mult_strict_right_mono)
  moreover have "(2::real) powi (binade x + 1) * 2 powi (- e) = 2 powi 53"
    unfolding e_def by (simp flip: power_int_add)
  ultimately have zhi: "z \<le> of_int (2 ^ 53)" by simp
  from py_round_mono [OF zlo] have rlo: "2 ^ 52 \<le> py_round z"
    by (simp only: py_round_of_int)
  from py_round_mono [OF zhi] have rhi: "py_round z \<le> 2 ^ 53"
    by (simp only: py_round_of_int)
  have b: "binary64 x = of_int (py_round z) * 2 powi e"
    using x(1) by (simp add: binary64_def e_def z_def Let_def)
  have pe: "(0::real) < 2 powi e" by simp
  have "(of_int (2 ^ 52) :: real) \<le> of_int (py_round z)" using rlo by (simp only: of_int_le_iff)
  then have "of_int (2 ^ 52) * 2 powi e \<le> binary64 x"
    unfolding b using pe by (simp only: mult_right_mono less_imp_le)
  moreover have "(of_int (2 ^ 52) :: real) * 2 powi e = 2 powi binade x"
  proof -
    have "(of_int (2 ^ 52) :: real) * 2 powi e = 2 powi 52 * 2 powi e" by simp
    also have "\<dots> = 2 powi (52 + e)" by (rule power_int_add [symmetric]) simp
    also have "52 + e = binade x" by (simp add: e_def)
    finally show ?thesis .
  qed
  ultimately have 1: "2 powi binade x \<le> binary64 x" by simp
  have "(of_int (py_round z) :: real) \<le> of_int (2 ^ 53)" using rhi by (simp only: of_int_le_iff)
  then have "binary64 x \<le> of_int (2 ^ 53) * 2 powi e"
    unfolding b using pe by (simp only: mult_right_mono less_imp_le)
  moreover have "(of_int (2 ^ 53) :: real) * 2 powi e = 2 powi (binade x + 1)"
  proof -
    have "(of_int (2 ^ 53) :: real) * 2 powi e = 2 powi 53 * 2 powi e" by simp
    also have "\<dots> = 2 powi (53 + e)" by (rule power_int_add [symmetric]) simp
    also have "53 + e = binade x + 1" by (simp add: e_def)
    finally show ?thesis .
  qed
  ultimately have 2: "binary64 x \<le> 2 powi (binade x + 1)" by simp
  from 1 2 show ?thesis ..
qed

lemma binary64_pos: "0 < x \<Longrightarrow> 0 < binary64 x"
proof -
  assume "0 < x"
  from binary64_pos_bounds [OF this] have "2 powi binade x \<le> binary64 x" ..
  moreover have "(0::real) < 2 powi binade x" by simp
  ultimately show ?thesis by linarith
qed

lemma binary64_mono_pos:
  assumes "0 < x" "x \<le> y"
  shows "binary64 x \<le> binary64 y"
proof (cases "binade x = binade y")
  case True
  define e where "e = binade y - 52"
  from assms have y: "0 < y" by simp
  have "x * 2 powi (- e) \<le> y * 2 powi (- e)"
    using assms(2) by (simp add: mult_right_mono)
  then have "py_round (x * 2 powi (- e)) \<le> py_round (y * 2 powi (- e))" by (rule py_round_mono)
  then have "(of_int (py_round (x * 2 powi (- e))) :: real) \<le> of_int (py_round (y * 2 powi (- e)))"
    by (simp only: of_int_le_iff)
  then have "of_int (py_round (x * 2 powi (- e))) * 2 powi e
               \<le> of_int (py_round (y * 2 powi (- e))) * (2::real) powi e"
    by (simp add: mult_right_mono)
  with True assms(1) y show ?thesis
    by (simp add: binary64_def e_def Let_def)
next
  case False
  from assms have y: "0 < y" by simp
  have "binade x \<le> binade y"
    using assms y by (intro binade_mono) simp_all
  with False have "binade x + 1 \<le> binade y" by simp
  then have "(2::real) powi (binade x + 1) \<le> 2 powi binade y"
    by (intro power_int_increasing) simp_all
  with binary64_pos_bounds [OF assms(1)] binary64_pos_bounds [OF y] show ?thesis by linarith
qed

lemma binary64_mono:
  assumes "x \<le> y"
  shows "binary64 x \<le> binary64 y"
proof -
  consider "0 < x" | "x \<le> 0" "0 \<le> y" | "y < 0" by linarith
  then show ?thesis
  proof cases
    case 1
    then show ?thesis using assms by (rule binary64_mono_pos)
  next
    case 2
    have "binary64 x \<le> 0"
    proof (cases "x = 0")
      case True
      then show ?thesis by (simp add: binary64_def)
    next
      case False
      with 2 have "0 < - x" by simp
      from binary64_pos [OF this] show ?thesis by (simp add: binary64_minus)
    qed
    moreover have "0 \<le> binary64 y"
    proof (cases "y = 0")
      case True
      then show ?thesis by (simp add: binary64_def)
    next
      case False
      with 2 have "0 < y" by simp
      from binary64_pos [OF this] show ?thesis by simp
    qed
    ultimately show ?thesis by simp
  next
    case 3
    with assms have "0 < - y" "- y \<le> - x" by simp_all
    then have "binary64 (- y) \<le> binary64 (- x)" by (rule binary64_mono_pos)
    then show ?thesis by (simp add: binary64_minus)
  qed
qed

lemma binary64_zero: "binary64 0 = 0"
  by (simp add: binary64_def)

lemma rounded_nonneg:
  fixes rnd :: "real \<Rightarrow> real"
  assumes "mono rnd" "rnd 0 = 0" "0 \<le> x"
  shows "0 \<le> rnd x"
  using monoD [OF assms(1) assms(3)] assms(2) by simp


lemma mono_binary64: "mono binary64"
  by (rule monoI) (rule binary64_mono)

lemma rounded_nonpos:
  fixes rnd :: "real \<Rightarrow> real"
  assumes "mono rnd" "rnd 0 = 0" "x \<le> 0"
  shows "rnd x \<le> 0"
  using monoD [OF assms(1) assms(3)] assms(2) by simp

section \<open>Rounded arithmetic: the sizing\<close>

text \<open>With the identity for \<open>rnd\<close> the two embeddings are the same function.\<close>

lemma pip_value_fl_exact: "pip_value_fl (\<lambda>x. x) info symbol = pip_value info symbol"
  by (simp add: pip_value_fl_def pip_value_def py_div_fl_def py_div_def)

lemma raw_lot_size_fl_exact:
  "raw_lot_size_fl (\<lambda>x. x) info symbol r s = raw_lot_size info symbol r s"
  by (simp add: raw_lot_size_fl_def raw_lot_size_def pip_value_fl_exact py_div_fl_def py_div_def
      split: sum.splits)

lemma rounded_lot_size_fl_exact:
  "rounded_lot_size_fl (\<lambda>x. x) info symbol r s = rounded_lot_size info symbol r s"
  by (simp add: rounded_lot_size_fl_def rounded_lot_size_def raw_lot_size_fl_exact
      py_div_fl_def py_div_def split: sum.splits)

lemma lot_size_computation_fl_exact:
  "lot_size_computation_fl (\<lambda>x. x) info symbol r s = lot_size_computation info symbol r s"
  by (simp add: lot_size_computation_fl_def lot_size_computation_def rounded_lot_size_fl_exact)

lemma calculate_safe_lot_size_fl_exact:
  "calculate_safe_lot_size_fl (\<lambda>x. x) g symbol r s = calculate_safe_lot_size g symbol r s"
  by (simp add: calculate_safe_lot_size_fl_def calculate_safe_lot_size_def
      lot_size_computation_fl_exact split: sum.splits option.splits)

lemma order_levels_exact: "order_levels_fl (\<lambda>x. x) symbol ot t s = order_levels symbol ot t s"
  by (simp add: order_levels_fl_def order_levels_def)

lemma calculate_safe_lot_size_fl_returns:
  "\<exists>v. fst (calculate_safe_lot_size_fl rnd g symbol r s) = Inr v"
proof (cases "g symbol")
  case (Inl e)
  then have "fst (calculate_safe_lot_size_fl rnd g symbol r s) = Inr (1 / 100)"
    by (simp add: calculate_safe_lot_size_fl_def)
  then show ?thesis ..
next
  case (Inr found)
  show ?thesis
  proof (cases found)
    case None
    with Inr have "fst (calculate_safe_lot_size_fl rnd g symbol r s) = Inr (1 / 100)"
      by (simp add: calculate_safe_lot_size_fl_def)
    then show ?thesis ..
  next
    case (Some info)
    show ?thesis
    proof (cases "lot_size_computation_fl rnd info symbol r s")
      case (Inl e)
      with Inr Some
      have "fst (calculate_safe_lot_size_fl rnd g symbol r s) = Inr (volume_min info)"
        by (simp add: calculate_safe_lot_size_fl_def)
      then show ?thesis ..
    next
      case (Inr v)
      with \<open>g symbol = Inr found\<close> Some
      have "fst (calculate_safe_lot_size_fl rnd g symbol r s) = Inr v"
        by (simp add: calculate_safe_lot_size_fl_def)
      then show ?thesis ..
    qed
  qed
qed


lemma lot_size_computation_fl_zero_divisor:
  assumes z: "rnd 0 = 0"
    and d: "trade_tick_size info = 0 \<or> trade_tick_value info = 0 \<or> volume_step info = 0 \<or> s = 0"
  shows "\<exists>e. lot_size_computation_fl rnd info symbol r s = Inl e"
proof (cases "trade_tick_size info = 0")
  case True
  then show ?thesis
    by (simp add: lot_size_computation_fl_def rounded_lot_size_fl_def raw_lot_size_fl_def
        pip_value_fl_def py_div_fl_def)
next
  case ts: False
  show ?thesis
  proof (cases "trade_tick_value info = 0 \<or> s = 0")
    case True
    with ts z show ?thesis
      by (auto simp add: lot_size_computation_fl_def rounded_lot_size_fl_def raw_lot_size_fl_def
          pip_value_fl_def py_div_fl_def)
  next
    case False
    with ts d have "volume_step info = 0" by simp
    then show ?thesis
      by (simp add: lot_size_computation_fl_def rounded_lot_size_fl_def py_div_fl_def
          split: sum.splits)
  qed
qed

lemma pip_value_fl_nonneg:
  assumes m: "mono rnd" and z: "rnd 0 = 0"
    and pos: "0 < trade_tick_size info" "0 < trade_tick_value info"
  shows "\<exists>pv. pip_value_fl rnd info symbol = Inr pv \<and> 0 \<le> pv"
proof -
  have c: "0 \<le> rnd c / trade_tick_size info" if "0 \<le> c" for c
    using rounded_nonneg [OF m z that] pos(1) by simp
  have "0 \<le> rnd (trade_tick_value info * rnd (rnd c / trade_tick_size info))" if "0 \<le> c" for c
  proof -
    have "0 \<le> rnd (rnd c / trade_tick_size info)"
      using c [OF that] by (rule rounded_nonneg [OF m z])
    with pos(2) have "0 \<le> trade_tick_value info * rnd (rnd c / trade_tick_size info)" by simp
    then show ?thesis by (rule rounded_nonneg [OF m z])
  qed
  from this [of "1 / 10000"] this [of "1 / 100"] pos(1) show ?thesis
    by (simp add: pip_value_fl_def py_div_fl_def)
qed

lemma rounded_lot_size_fl_nonpos:
  assumes m: "mono rnd" and z: "rnd 0 = 0"
    and pos: "0 < trade_tick_size info" "0 < trade_tick_value info" "0 < volume_step info"
    and sign: "(r \<le> 0 \<and> 0 < s) \<or> (0 \<le> r \<and> s < 0)"
  shows "(\<exists>e. rounded_lot_size_fl rnd info symbol r s = Inl e) \<or>
         (\<exists>x. rounded_lot_size_fl rnd info symbol r s = Inr x \<and> x \<le> 0)"
proof -
  from pip_value_fl_nonneg [OF m z pos(1,2)]
  obtain pv where pv: "pip_value_fl rnd info symbol = Inr pv" "0 \<le> pv" by blast
  define d where "d = rnd (s * pv)"
  show ?thesis
  proof (cases "d = 0")
    case True
    with pv(1) have "rounded_lot_size_fl rnd info symbol r s = Inl ZeroDivisionError"
      by (simp add: rounded_lot_size_fl_def raw_lot_size_fl_def py_div_fl_def d_def)
    then show ?thesis by blast
  next
    case False
    from sign have q: "r / d \<le> 0"
    proof
      assume a: "r \<le> 0 \<and> 0 < s"
      with pv(2) have "0 \<le> s * pv" by simp
      then have "0 \<le> d" unfolding d_def by (rule rounded_nonneg [OF m z])
      with False have "0 < d" by simp
      with a show ?thesis by (simp add: divide_nonpos_pos)
    next
      assume a: "0 \<le> r \<and> s < 0"
      with pv(2) have "s * pv \<le> 0" by (simp add: mult_nonpos_nonneg)
      then have "d \<le> 0" unfolding d_def by (rule rounded_nonpos [OF m z])
      with False have "d < 0" by simp
      with a show ?thesis by (simp add: divide_nonneg_neg)
    qed
    define raw where "raw = rnd (r / d)"
    have raw: "raw \<le> 0" unfolding raw_def using q by (rule rounded_nonpos [OF m z])
    define steps where "steps = rnd (raw / volume_step info)"
    from raw pos(3) have "raw / volume_step info \<le> 0" by (simp add: divide_nonpos_pos)
    then have "steps \<le> 0" unfolding steps_def by (rule rounded_nonpos [OF m z])
    then have "py_round steps \<le> 0" by (rule py_round_nonpos)
    then have "(of_int (py_round steps) :: real) \<le> 0" by simp
    then have "rnd (of_int (py_round steps)) \<le> 0" by (rule rounded_nonpos [OF m z])
    with pos(3) have "rnd (of_int (py_round steps)) * volume_step info \<le> 0"
      by (simp add: mult_nonpos_nonneg)
    then have x: "rnd (rnd (of_int (py_round steps)) * volume_step info) \<le> 0"
      by (rule rounded_nonpos [OF m z])
    have "rounded_lot_size_fl rnd info symbol r s =
            Inr (rnd (rnd (of_int (py_round steps)) * volume_step info))"
      using pv(1) False pos(3)
      by (simp add: rounded_lot_size_fl_def raw_lot_size_fl_def py_div_fl_def d_def raw_def steps_def)
    with x show ?thesis by blast
  qed
qed

section \<open>Position sizing: the claims\<close>




text \<open>
  C5. The EURUSD scenario: the pip value is 10, the raw volume 0.1 and the returned
  volume 0.1, computed by the body (nothing raised, nothing printed) and inside the
  symbol's limits.
\<close>

theorem lot_size_scenario_eurusd:
  "pip_value eurusd_info ''EURUSD'' = Inr 10 \<and>
   raw_lot_size eurusd_info ''EURUSD'' 50 50 = Inr (1 / 10) \<and>
   lot_size_computation eurusd_info ''EURUSD'' 50 50 = Inr (1 / 10) \<and>
   calculate_safe_lot_size eurusd_only ''EURUSD'' 50 50 = (Inr (1 / 10), []) \<and>
   volume_min eurusd_info \<le> 1 / 10 \<and> 1 / 10 \<le> volume_max eurusd_info"
  by (simp add: calculate_safe_lot_size_def eurusd_only_def eurusd_info_def
      lot_size_computation_def rounded_lot_size_def raw_lot_size_def pip_value_def
      py_div_def py_round_def endswith_def)

text \<open>
  C10. The sizing function always returns a volume. The volume is 0.01 when the lookup
  of the symbol raises or finds nothing, and the symbol's minimum volume when the
  description was read and the computation raises, which it does when the tick size,
  the tick value, the stop distance or the volume step is zero.
\<close>

theorem calculate_safe_lot_size_total:
  "(\<exists>v. fst (calculate_safe_lot_size g symbol r s) = Inr v) \<and>
   ((\<exists>e. g symbol = Inl e) \<or> g symbol = Inr None \<longrightarrow>
      fst (calculate_safe_lot_size g symbol r s) = Inr (1 / 100)) \<and>
   (\<forall>info. g symbol = Inr (Some info) \<longrightarrow>
      (\<forall>e. lot_size_computation info symbol r s = Inl e \<longrightarrow>
         fst (calculate_safe_lot_size g symbol r s) = Inr (volume_min info)) \<and>
      (trade_tick_size info = 0 \<or> trade_tick_value info = 0 \<or> s = 0 \<or> volume_step info = 0 \<longrightarrow>
         fst (calculate_safe_lot_size g symbol r s) = Inr (volume_min info)))"
proof (intro conjI allI impI)
  show "\<exists>v. fst (calculate_safe_lot_size g symbol r s) = Inr v"
    by (rule calculate_safe_lot_size_returns)
next
  assume "(\<exists>e. g symbol = Inl e) \<or> g symbol = Inr None"
  then show "fst (calculate_safe_lot_size g symbol r s) = Inr (1 / 100)"
    by (auto simp add: calculate_safe_lot_size_def)
next
  fix info e
  assume "g symbol = Inr (Some info)" "lot_size_computation info symbol r s = Inl e"
  then show "fst (calculate_safe_lot_size g symbol r s) = Inr (volume_min info)"
    by (simp add: calculate_safe_lot_size_def)
next
  fix info
  assume g: "g symbol = Inr (Some info)"
    and z: "trade_tick_size info = 0 \<or> trade_tick_value info = 0 \<or> s = 0 \<or> volume_step info = 0"
  from z have "lot_size_computation info symbol r s = Inl ZeroDivisionError"
    using lot_size_computation_Inl_iff [of info symbol r s ZeroDivisionError] by simp
  with g show "fst (calculate_safe_lot_size g symbol r s) = Inr (volume_min info)"
    by (simp add: calculate_safe_lot_size_def)
qed

theorem calculate_safe_lot_size_total_witness:
  "fst (calculate_safe_lot_size raising_gateway ''EURUSD'' 50 50) = Inr (1 / 100) \<and>
   fst (calculate_safe_lot_size eurusd_only ''XAUUSD'' 50 50) = Inr (1 / 100) \<and>
   trade_tick_size zero_tick_info = 0 \<and>
   fst (calculate_safe_lot_size (\<lambda>s. Inr (Some zero_tick_info)) ''EURUSD'' 50 50) =
     Inr (volume_min zero_tick_info) \<and>
   volume_min zero_tick_info \<noteq> 1 / 100"
proof -
  have a: "(\<exists>e. raising_gateway ''EURUSD'' = Inl e) \<or> raising_gateway ''EURUSD'' = Inr None"
    by (simp add: raising_gateway_def)
  have b: "(\<exists>e. eurusd_only ''XAUUSD'' = Inl e) \<or> eurusd_only ''XAUUSD'' = Inr None"
    by (simp add: eurusd_only_def)
  have c: "trade_tick_size zero_tick_info = 0" "volume_min zero_tick_info \<noteq> 1 / 100"
    by (simp_all add: zero_tick_info_def)
  from a calculate_safe_lot_size_total [of raising_gateway "''EURUSD''" 50 50]
  have "fst (calculate_safe_lot_size raising_gateway ''EURUSD'' 50 50) = Inr (1 / 100)"
    by blast
  moreover from b calculate_safe_lot_size_total [of eurusd_only "''XAUUSD''" 50 50]
  have "fst (calculate_safe_lot_size eurusd_only ''XAUUSD'' 50 50) = Inr (1 / 100)"
    by blast
  moreover from c(1)
    calculate_safe_lot_size_total [of "\<lambda>s. Inr (Some zero_tick_info)" "''EURUSD''" 50 50]
  have "fst (calculate_safe_lot_size (\<lambda>s. Inr (Some zero_tick_info)) ''EURUSD'' 50 50) =
          Inr (volume_min zero_tick_info)"
    by blast
  ultimately show ?thesis using c by blast
qed

text \<open>
  C3, as the code has it. The sizing function raises no error of any kind: for every
  lookup, symbol, risk amount and stop distance it returns a volume. With the symbol
  description there: when the tick size, the tick value, the volume step or the stop
  distance is zero it returns the symbol's minimum volume, a bare number, and prints one
  error line; when the tick size, the tick value and the step are positive, the minimum
  volume is not negative, and the risk amount is at most zero with a positive stop
  distance (or the stop distance is negative with a risk amount of at least zero), it
  returns the minimum volume. This holds for every rounding of the arithmetic that is
  monotone and leaves zero alone.
\<close>

theorem sizing_never_fails:
  assumes m: "mono rnd" and z: "rnd 0 = 0"
  shows "(\<exists>v. fst (calculate_safe_lot_size_fl rnd g symbol r s) = Inr v) \<and>
         (\<forall>info. g symbol = Inr (Some info) \<longrightarrow>
            (trade_tick_size info = 0 \<or> trade_tick_value info = 0 \<or>
             volume_step info = 0 \<or> s = 0 \<longrightarrow>
               fst (calculate_safe_lot_size_fl rnd g symbol r s) = Inr (volume_min info) \<and>
               (\<exists>e. snd (calculate_safe_lot_size_fl rnd g symbol r s) =
                      [Error_calculating_lot_size e])) \<and>
            (0 < trade_tick_size info \<and> 0 < trade_tick_value info \<and> 0 < volume_step info \<and>
             0 \<le> volume_min info \<and> ((r \<le> 0 \<and> 0 < s) \<or> (0 \<le> r \<and> s < 0)) \<longrightarrow>
               fst (calculate_safe_lot_size_fl rnd g symbol r s) = Inr (volume_min info)))"
proof (intro conjI allI impI)
  show "\<exists>v. fst (calculate_safe_lot_size_fl rnd g symbol r s) = Inr v"
    by (rule calculate_safe_lot_size_fl_returns)
next
  fix info
  assume known: "g symbol = Inr (Some info)"
    and d: "trade_tick_size info = 0 \<or> trade_tick_value info = 0 \<or>
            volume_step info = 0 \<or> s = 0"
  from lot_size_computation_fl_zero_divisor [where rnd = rnd and info = info and s = s, OF z d]
  obtain e where e: "lot_size_computation_fl rnd info symbol r s = Inl e" by blast
  with known show "fst (calculate_safe_lot_size_fl rnd g symbol r s) = Inr (volume_min info)"
    by (simp add: calculate_safe_lot_size_fl_def)
  from known e
  have "snd (calculate_safe_lot_size_fl rnd g symbol r s) = [Error_calculating_lot_size e]"
    by (simp add: calculate_safe_lot_size_fl_def)
  then show "\<exists>e. snd (calculate_safe_lot_size_fl rnd g symbol r s) =
                  [Error_calculating_lot_size e]" ..
next
  fix info
  assume known: "g symbol = Inr (Some info)"
    and a: "0 < trade_tick_size info \<and> 0 < trade_tick_value info \<and> 0 < volume_step info \<and>
            0 \<le> volume_min info \<and> ((r \<le> 0 \<and> 0 < s) \<or> (0 \<le> r \<and> s < 0))"
  from a rounded_lot_size_fl_nonpos [OF m z, of info r s symbol]
  consider e where "rounded_lot_size_fl rnd info symbol r s = Inl e"
    | x where "rounded_lot_size_fl rnd info symbol r s = Inr x" "x \<le> 0"
    by blast
  then show "fst (calculate_safe_lot_size_fl rnd g symbol r s) = Inr (volume_min info)"
  proof cases
    case 1
    with known show ?thesis
      by (simp add: calculate_safe_lot_size_fl_def lot_size_computation_fl_def)
  next
    case 2
    with a have "x \<le> volume_min info" by simp
    with known 2(1) show ?thesis
      by (simp add: calculate_safe_lot_size_fl_def lot_size_computation_fl_def max_def min_def)
  qed
qed

theorem sizing_never_fails_witness:
  "mono binary64 \<and> binary64 0 = 0 \<and>
   float_gateway ''EURUSD'' = Inr (Some float_info) \<and>
   fst (calculate_safe_lot_size_fl binary64 float_gateway ''EURUSD'' 50 0) =
     Inr (volume_min float_info) \<and>
   (\<exists>e. snd (calculate_safe_lot_size_fl binary64 float_gateway ''EURUSD'' 50 0) =
          [Error_calculating_lot_size e]) \<and>
   0 < trade_tick_size float_info \<and> 0 < trade_tick_value float_info \<and>
   0 < volume_step float_info \<and> 0 \<le> volume_min float_info \<and> (- 50 :: real) \<le> 0 \<and>
   fst (calculate_safe_lot_size_fl binary64 float_gateway ''EURUSD'' (- 50) 50) =
     Inr (volume_min float_info)"
proof -
  have known: "float_gateway ''EURUSD'' = Inr (Some float_info)"
    by (simp add: float_gateway_def)
  have pos: "0 < trade_tick_size float_info" "0 < trade_tick_value float_info"
    "0 < volume_step float_info" "0 \<le> volume_min float_info"
    by (simp_all add: float_info_def binary64_def binade_def py_round_def compute_bitlen)
  from sizing_never_fails
         [OF mono_binary64 binary64_zero, of float_gateway "''EURUSD''" 50 0] known
  have zero: "fst (calculate_safe_lot_size_fl binary64 float_gateway ''EURUSD'' 50 0) =
                Inr (volume_min float_info) \<and>
              (\<exists>e. snd (calculate_safe_lot_size_fl binary64 float_gateway ''EURUSD'' 50 0) =
                     [Error_calculating_lot_size e])"
    by blast
  from sizing_never_fails
         [OF mono_binary64 binary64_zero, of float_gateway "''EURUSD''" "- 50" 50] known pos
  have neg: "fst (calculate_safe_lot_size_fl binary64 float_gateway ''EURUSD'' (- 50) 50) =
               Inr (volume_min float_info)"
    by simp
  from zero neg known pos mono_binary64 binary64_zero show ?thesis by simp
qed

text \<open>
  C3 as stated fails: a risk amount of zero returns the minimum volume 0.01 with nothing
  raised and nothing printed, and a stop distance of zero returns 0.01 as well, after
  one printed line; in neither case is there an error value.
\<close>

theorem sizing_invalid_input_counterexample:
  "calculate_safe_lot_size eurusd_only ''EURUSD'' 0 50 = (Inr (1 / 100), []) \<and>
   calculate_safe_lot_size eurusd_only ''EURUSD'' 50 0 =
     (Inr (1 / 100), [Error_calculating_lot_size ZeroDivisionError])"
  by (simp add: calculate_safe_lot_size_def eurusd_only_def eurusd_info_def
      lot_size_computation_def rounded_lot_size_def raw_lot_size_def pip_value_def
      py_div_def py_round_def endswith_def)

text \<open>
  C4, as the code has it. When the rounded raw volume is below the minimum volume the
  sizing function returns exactly the minimum volume and prints nothing: a bare number.
\<close>

theorem clamp_to_minimum_is_bare:
  assumes "g symbol = Inr (Some info)"
    and "rounded_lot_size info symbol r s = Inr x"
    and "x < volume_min info"
  shows "calculate_safe_lot_size g symbol r s = (Inr (volume_min info), [])"
  using assms by (simp add: calculate_safe_lot_size_def lot_size_computation_def max_def min_def)

theorem clamp_to_minimum_is_bare_witness:
  "eurusd_only ''EURUSD'' = Inr (Some eurusd_info) \<and>
   rounded_lot_size eurusd_info ''EURUSD'' 1 50 = Inr 0 \<and>
   0 < volume_min eurusd_info \<and>
   calculate_safe_lot_size eurusd_only ''EURUSD'' 1 50 = (Inr (volume_min eurusd_info), [])"
proof -
  have known: "eurusd_only ''EURUSD'' = Inr (Some eurusd_info)"
    by (simp add: eurusd_only_def)
  have rounded: "rounded_lot_size eurusd_info ''EURUSD'' 1 50 = Inr 0"
    by (simp add: eurusd_info_def rounded_lot_size_def raw_lot_size_def pip_value_def
        py_div_def py_round_def endswith_def)
  have below: "0 < volume_min eurusd_info" by (simp add: eurusd_info_def)
  from clamp_to_minimum_is_bare
         [of eurusd_only "''EURUSD''" eurusd_info 1 50 0, OF known rounded below]
       known rounded below
  show ?thesis by simp
qed

text \<open>
  C4 as stated fails: for EURUSD with stop distance 50, risk 1 rounds to zero and is
  raised to the minimum 0.01, while risk 5 computes 0.01 exactly and in range; the
  function returns the same value and prints the same (nothing) in both cases.
\<close>

theorem clamp_not_distinguishable_counterexample:
  "rounded_lot_size eurusd_info ''EURUSD'' 1 50 = Inr 0 \<and>
   0 < volume_min eurusd_info \<and>
   rounded_lot_size eurusd_info ''EURUSD'' 5 50 = Inr (1 / 100) \<and>
   volume_min eurusd_info \<le> 1 / 100 \<and> 1 / 100 \<le> volume_max eurusd_info \<and>
   calculate_safe_lot_size eurusd_only ''EURUSD'' 1 50 =
     calculate_safe_lot_size eurusd_only ''EURUSD'' 5 50"
  by (simp add: calculate_safe_lot_size_def eurusd_only_def eurusd_info_def
      lot_size_computation_def rounded_lot_size_def raw_lot_size_def pip_value_def
      py_div_def py_round_def endswith_def)

section \<open>Order levels: the claims\<close>

lemma order_levels_buy:
  "upper ot = ''BUY'' \<Longrightarrow>
     order_levels symbol ot t s =
       \<lparr>price = ask t, stop_loss = ask t - price_distance symbol s,
        take_profit = ask t + 2 * price_distance symbol s, order_type_of = ORDER_TYPE_BUY\<rparr>"
  by (simp add: order_levels_def price_distance_def Let_def)

lemma order_levels_sell:
  "upper ot \<noteq> ''BUY'' \<Longrightarrow>
     order_levels symbol ot t s =
       \<lparr>price = bid t, stop_loss = bid t + price_distance symbol s,
        take_profit = bid t - 2 * price_distance symbol s, order_type_of = ORDER_TYPE_SELL\<rparr>"
  by (simp add: order_levels_def price_distance_def Let_def)

lemma place_test_order_request_levels:
  "\<exists>lot printed.
     place_test_order_request g symbol ot r t =
       (Some \<lparr>req_symbol = symbol, req_volume = lot,
              req_type = order_type_of (order_levels symbol ot t 50),
              req_price = price (order_levels symbol ot t 50),
              req_sl = stop_loss (order_levels symbol ot t 50),
              req_tp = take_profit (order_levels symbol ot t 50)\<rparr>, printed)"
proof -
  obtain v where v: "fst (calculate_safe_lot_size g symbol r 50) = Inr v"
    using calculate_safe_lot_size_returns [of g symbol r 50] by blast
  obtain sized printed where sp: "calculate_safe_lot_size g symbol r 50 = (sized, printed)"
    by (cases "calculate_safe_lot_size g symbol r 50")
  with v have "sized = Inr v" by simp
  with sp show ?thesis
    by (simp add: place_test_order_request_def Let_def)
qed




text \<open>
  C6. The levels are the entry price (ask for a buy, bid otherwise) moved by the price
  distance: the stop distance times 0.0001, or for a symbol that ends in JPY a hundred
  times the stop distance times 0.01. The stop loss is one distance away and the take
  profit two.
\<close>

theorem order_levels_distance:
  "order_levels symbol ot t s =
     (if upper ot = ''BUY''
      then \<lparr>price = ask t, stop_loss = ask t - price_distance symbol s,
            take_profit = ask t + 2 * price_distance symbol s, order_type_of = ORDER_TYPE_BUY\<rparr>
      else \<lparr>price = bid t, stop_loss = bid t + price_distance symbol s,
            take_profit = bid t - 2 * price_distance symbol s, order_type_of = ORDER_TYPE_SELL\<rparr>)"
  by (simp add: order_levels_buy order_levels_sell)

text \<open>
  C7, as the code has it. No order type is refused: every order type whose upper-case
  form is not BUY gives the levels of a sell, entered at the bid, and the function goes
  on to build a sell request from them.
\<close>

theorem other_direction_is_sell:
  assumes "upper ot \<noteq> ''BUY''"
  shows "order_levels symbol ot t s =
           \<lparr>price = bid t, stop_loss = bid t + price_distance symbol s,
            take_profit = bid t - 2 * price_distance symbol s, order_type_of = ORDER_TYPE_SELL\<rparr> \<and>
         (\<exists>req. fst (place_test_order_request g symbol ot r t) = Some req \<and>
                req_type req = ORDER_TYPE_SELL \<and> req_price req = bid t)"
proof -
  from place_test_order_request_levels [of g symbol ot r t]
  obtain lot printed where
    "place_test_order_request g symbol ot r t =
       (Some \<lparr>req_symbol = symbol, req_volume = lot,
              req_type = order_type_of (order_levels symbol ot t 50),
              req_price = price (order_levels symbol ot t 50),
              req_sl = stop_loss (order_levels symbol ot t 50),
              req_tp = take_profit (order_levels symbol ot t 50)\<rparr>, printed)"
    by blast
  with assms show ?thesis by (simp add: order_levels_sell)
qed

theorem other_direction_is_sell_witness:
  "upper ''HOLD'' \<noteq> ''BUY'' \<and>
   order_levels ''EURUSD'' ''HOLD'' quote 50 =
     \<lparr>price = bid quote, stop_loss = bid quote + price_distance ''EURUSD'' 50,
      take_profit = bid quote - 2 * price_distance ''EURUSD'' 50,
      order_type_of = ORDER_TYPE_SELL\<rparr>"
proof -
  have h: "upper ''HOLD'' \<noteq> ''BUY''" by (simp add: upper_def upper_char_def)
  from other_direction_is_sell [OF h, of "''EURUSD''" quote 50] h show ?thesis by blast
qed

text \<open>
  C7 as stated fails: the order type HOLD, neither buy nor sell, produces a complete
  sell request for EURUSD.
\<close>

theorem invalid_direction_counterexample:
  "upper ''HOLD'' \<noteq> ''BUY'' \<and> upper ''HOLD'' \<noteq> ''SELL'' \<and>
   place_test_order_request eurusd_only ''EURUSD'' ''HOLD'' 25 quote =
     (Some \<lparr>req_symbol = ''EURUSD'', req_volume = 1 / 20, req_type = ORDER_TYPE_SELL,
            req_price = 11049 / 10000, req_sl = 11099 / 10000, req_tp = 10949 / 10000\<rparr>, [])"
  by (simp add: place_test_order_request_def order_levels_def quote_def upper_def upper_char_def
      calculate_safe_lot_size_def eurusd_only_def eurusd_info_def
      lot_size_computation_def rounded_lot_size_def raw_lot_size_def pip_value_def
      py_div_def py_round_def endswith_def)

section \<open>Configuration store: the claims\<close>

lemma getitem_Inr_iff:
  "getitem ref key = Inr v \<longleftrightarrow> (\<exists>d. ref = JDict d \<and> map_of d key = Some v)"
  by (cases ref) (auto split: option.splits)

lemma get_loop_present:
  "path_value v keys = Some x \<Longrightarrow> get_loop v keys = Inr x"
proof (induction keys arbitrary: v)
  case Nil
  then show ?case by simp
next
  case (Cons key keys)
  then show ?case
    by (cases v) (auto split: option.splits)
qed

lemma get_loop_absent:
  "path_value v keys = None \<Longrightarrow> get_loop v keys = Inl KeyError \<or> get_loop v keys = Inl TypeError"
proof (induction keys arbitrary: v)
  case Nil
  then show ?case by simp
next
  case (Cons key keys)
  then show ?case
    by (cases v) (auto split: option.splits)
qed

lemma set_loop_then_get_loop:
  "keys \<noteq> [] \<Longrightarrow> set_loop ref keys v = (ref', None) \<Longrightarrow> get_loop ref' keys = Inr v"
proof (induction ref keys v arbitrary: ref' rule: set_loop.induct)
  case (1 ref v)
  then show ?case by simp
next
  case (2 ref key v)
  then show ?case
    by (cases ref) (auto simp add: update_conv')
next
  case (3 ref key k2 keys v)
  from "3.prems"(2) obtain present where present: "contains ref key = Inr present"
    by (cases "contains ref key") auto
  from "3.prems"(2) present obtain ref1 where
    ref1: "(if present then Inr ref else setitem ref key (JDict [])) = Inr ref1"
    by (cases "if present then Inr ref else setitem ref key (JDict [])") auto
  from "3.prems"(2) present ref1 obtain child where child: "getitem ref1 key = Inr child"
    by (cases "getitem ref1 key") auto
  obtain child' raised where rec: "set_loop child (k2 # keys) v = (child', raised)"
    by (cases "set_loop child (k2 # keys) v")
  from "3.prems"(2) present ref1 child rec
  have res: "ref' = put_back ref1 key child'" "raised = None"
    by auto
  from child obtain d where d: "ref1 = JDict d"
    using getitem_Inr_iff by blast
  have "get_loop child' (k2 # keys) = Inr v"
    using "3.IH" [OF present ref1 child _ , of child'] rec res(2) by simp
  with res(1) d show ?case
    by (simp add: update_conv')
qed

lemma py_split_not_Nil: "py_split s sep \<noteq> []"
  by (cases s) (auto split: list.splits)

text \<open>
  C8. \<^verbatim>\<open>get\<close> never raises, and on a dot path that addresses nothing in the document
  it returns the default it was given.
\<close>

theorem get_absent_path_gives_default:
  "(\<exists>x. get config key_path dflt = Inr x) \<and>
   (path_value config (py_split key_path (CHR ''.'')) = None \<longrightarrow>
      get config key_path dflt = Inr dflt)"
proof (cases "path_value config (py_split key_path (CHR ''.''))")
  case None
  from get_loop_absent [OF None] have "get config key_path dflt = Inr dflt"
    by (auto simp add: get_def)
  then show ?thesis by simp
next
  case (Some x)
  from get_loop_present [OF Some] have "get config key_path dflt = Inr x"
    by (simp add: get_def)
  with Some show ?thesis by simp
qed

theorem get_absent_path_gives_default_witness:
  "path_value sample_config (py_split ''trading.max_daily_loss'' (CHR ''.'')) = None \<and>
   get sample_config ''trading.max_daily_loss'' (JInt 7) = Inr (JInt 7)"
proof -
  have absent: "path_value sample_config (py_split ''trading.max_daily_loss'' (CHR ''.'')) = None"
    by (simp add: sample_config_def)
  with get_absent_path_gives_default [of sample_config "''trading.max_daily_loss''" "JInt 7"]
  show ?thesis by blast
qed

text \<open>
  C9. When \<^verbatim>\<open>set\<close> returns \<^verbatim>\<open>True\<close>, \<^verbatim>\<open>get\<close> on the same path in the
  configuration it leaves returns the value that was set, whatever the default.
\<close>

theorem get_after_set:
  assumes "set_value config key_path v = (config', True)"
  shows "get config' key_path dflt = Inr v"
proof -
  from assms have "set_loop config (py_split key_path (CHR ''.'')) v = (config', None)"
    by (auto simp add: set_value_def split: prod.splits)
  with py_split_not_Nil have "get_loop config' (py_split key_path (CHR ''.'')) = Inr v"
    by (rule set_loop_then_get_loop)
  then show ?thesis by (simp add: get_def)
qed

theorem get_after_set_witness:
  "set_value sample_config ''trading.risk_amount'' (JFloat 75) =
     (JDict [(''trading'', JDict [(''risk_amount'', JFloat 75), (''magic_number'', JInt 234567)]),
             (''symbols'', JList [JDict [(''name'', JStr ''EURUSD'')]])], True) \<and>
   get (JDict [(''trading'', JDict [(''risk_amount'', JFloat 75), (''magic_number'', JInt 234567)]),
               (''symbols'', JList [JDict [(''name'', JStr ''EURUSD'')]])])
       ''trading.risk_amount'' JNull = Inr (JFloat 75) \<and>
   set_value sample_config ''mt5.retry.count'' (JInt 3) =
     (JDict [(''trading'', JDict [(''risk_amount'', JFloat 50), (''magic_number'', JInt 234567)]),
             (''symbols'', JList [JDict [(''name'', JStr ''EURUSD'')]]),
             (''mt5'', JDict [(''retry'', JDict [(''count'', JInt 3)])])], True) \<and>
   get (JDict [(''trading'', JDict [(''risk_amount'', JFloat 50), (''magic_number'', JInt 234567)]),
               (''symbols'', JList [JDict [(''name'', JStr ''EURUSD'')]]),
               (''mt5'', JDict [(''retry'', JDict [(''count'', JInt 3)])])])
       ''mt5.retry.count'' JNull = Inr (JInt 3)"
proof -
  have a: "set_value sample_config ''trading.risk_amount'' (JFloat 75) =
     (JDict [(''trading'', JDict [(''risk_amount'', JFloat 75), (''magic_number'', JInt 234567)]),
             (''symbols'', JList [JDict [(''name'', JStr ''EURUSD'')]])], True)"
    by (simp add: set_value_def sample_config_def)
  have b: "set_value sample_config ''mt5.retry.count'' (JInt 3) =
     (JDict [(''trading'', JDict [(''risk_amount'', JFloat 50), (''magic_number'', JInt 234567)]),
             (''symbols'', JList [JDict [(''name'', JStr ''EURUSD'')]]),
             (''mt5'', JDict [(''retry'', JDict [(''count'', JInt 3)])])], True)"
    by (simp add: set_value_def sample_config_def)
  from a b get_after_set [OF a, of JNull] get_after_set [OF b, of JNull]
  show ?thesis by blast
qed

end
